theory Spec2Isabelle
  imports Complex_Main
begin

section \<open>Python values, exceptions and floats\<close>

text \<open>
  The module \<^verbatim>\<open>wxdatatypes.py\<close> is Python 2 (it calls \<^verbatim>\<open>has_key\<close> and
  \<^verbatim>\<open>iteritems\<close>). Every \<^verbatim>\<open>raise\<close>, and every exception of a builtin the module
  relies on, is a value \<open>Inl e\<close> of the result type \<open>error + 'a\<close>.
\<close>

datatype error =
    UnitsError | ValueError | TypeError | AttributeError
  | UnboundLocalError | ZeroDivisionError | OverflowError

definition ebind :: "error + 'a \<Rightarrow> ('a \<Rightarrow> error + 'b) \<Rightarrow> error + 'b" where
  "ebind m f = (case m of Inl e \<Rightarrow> Inl e | Inr x \<Rightarrow> f x)"

text \<open>
  A Python float is an IEEE 754 binary64 number. A finite one is the rational it denotes;
  the sign of zero is not represented. \<open>fl\<close> rounds a rational to the nearest binary64
  number, ties to even, with gradual underflow (least exponent \<open>-1074\<close>) and overflow to
  infinity: every arithmetic operation of the module is the exact operation followed by
  \<open>fl\<close>, and a literal or a parsed string is \<open>fl\<close> of its decimal value.
\<close>

datatype pyfloat = Fin rat | PInf | NInf | NaN

function bitlen :: "int \<Rightarrow> int" where
  "bitlen n = (if n \<le> 0 then 0 else 1 + bitlen (n div 2))"
  by pat_completeness auto
termination
  by (relation "measure nat") auto

declare bitlen.simps [simp del]

definition pow2 :: "int \<Rightarrow> rat" where
  "pow2 e = (if 0 \<le> e then 2 ^ nat e else 1 / 2 ^ nat (- e))"

definition ilog2 :: "rat \<Rightarrow> int" where
  "ilog2 x = (let (p, q) = quotient_of x;
                  k = bitlen p - bitlen q
              in if pow2 k \<le> x then k else k - 1)"

definition round_half_even :: "rat \<Rightarrow> int" where
  "round_half_even x = (let f = \<lfloor>x\<rfloor>; r = x - of_int f
     in if r < 1 / 2 then f else if 1 / 2 < r then f + 1
        else if even f then f else f + 1)"

definition fl :: "rat \<Rightarrow> pyfloat" where
  "fl x = (if x = 0 then Fin 0 else
     let a = \<bar>x\<bar>; e = max (ilog2 a - 52) (- 1074);
         y = of_int (round_half_even (a / pow2 e)) * pow2 e
     in if 2 ^ 1024 \<le> y then (if 0 < x then PInf else NInf)
        else Fin (if 0 < x then y else - y))"

fun fneg :: "pyfloat \<Rightarrow> pyfloat" where
  "fneg (Fin a) = Fin (- a)"
| "fneg PInf = NInf"
| "fneg NInf = PInf"
| "fneg NaN = NaN"

fun fadd :: "pyfloat \<Rightarrow> pyfloat \<Rightarrow> pyfloat" where
  "fadd (Fin a) (Fin b) = fl (a + b)"
| "fadd NaN _ = NaN"
| "fadd _ NaN = NaN"
| "fadd PInf NInf = NaN"
| "fadd NInf PInf = NaN"
| "fadd PInf _ = PInf"
| "fadd NInf _ = NInf"
| "fadd _ PInf = PInf"
| "fadd _ NInf = NInf"

definition fsub :: "pyfloat \<Rightarrow> pyfloat \<Rightarrow> pyfloat" where
  "fsub a b = fadd a (fneg b)"

definition inf_of_sign :: "bool \<Rightarrow> pyfloat" where
  "inf_of_sign positive = (if positive then PInf else NInf)"

fun fmul :: "pyfloat \<Rightarrow> pyfloat \<Rightarrow> pyfloat" where
  "fmul (Fin a) (Fin b) = fl (a * b)"
| "fmul NaN _ = NaN"
| "fmul _ NaN = NaN"
| "fmul (Fin a) PInf = (if a = 0 then NaN else inf_of_sign (0 < a))"
| "fmul (Fin a) NInf = (if a = 0 then NaN else inf_of_sign (a < 0))"
| "fmul PInf (Fin b) = (if b = 0 then NaN else inf_of_sign (0 < b))"
| "fmul NInf (Fin b) = (if b = 0 then NaN else inf_of_sign (b < 0))"
| "fmul PInf PInf = PInf"
| "fmul NInf NInf = PInf"
| "fmul PInf NInf = NInf"
| "fmul NInf PInf = NInf"

text \<open>Python raises \<^verbatim>\<open>ZeroDivisionError\<close> on every float division by zero.\<close>

fun fdiv :: "pyfloat \<Rightarrow> pyfloat \<Rightarrow> error + pyfloat" where
  "fdiv x (Fin b) =
     (if b = 0 then Inl ZeroDivisionError
      else case x of Fin a \<Rightarrow> Inr (fl (a / b))
        | PInf \<Rightarrow> Inr (inf_of_sign (0 < b))
        | NInf \<Rightarrow> Inr (inf_of_sign (b < 0))
        | NaN \<Rightarrow> Inr NaN)"
| "fdiv x NaN = Inr NaN"
| "fdiv (Fin a) _ = Inr (Fin 0)"
| "fdiv _ _ = Inr NaN"

text \<open>Comparisons: every comparison with a NaN is false.\<close>

fun flt :: "pyfloat \<Rightarrow> pyfloat \<Rightarrow> bool" where
  "flt (Fin a) (Fin b) = (a < b)"
| "flt NaN _ = False"
| "flt _ NaN = False"
| "flt NInf b = (b \<noteq> NInf)"
| "flt a PInf = (a \<noteq> PInf)"
| "flt _ _ = False"

definition feq :: "pyfloat \<Rightarrow> pyfloat \<Rightarrow> bool" where
  "feq a b = (a \<noteq> NaN \<and> a = b)"

text \<open>
  The arguments a caller can pass as a token: a string, a float, an integer or
  \<^verbatim>\<open>None\<close>; the same type holds what a method returns.
\<close>

datatype pyval = StrV string | FltV pyfloat | IntV int | NoneV

text \<open>\<^verbatim>\<open>float(n)\<close> of an integer: rounded, \<^verbatim>\<open>OverflowError\<close> beyond the range.\<close>

definition float_of_int :: "int \<Rightarrow> error + pyfloat" where
  "float_of_int n = (case fl (of_int n) of Fin y \<Rightarrow> Inr (Fin y) | _ \<Rightarrow> Inl OverflowError)"

subsection \<open>Strings\<close>

definition upper_char :: "char \<Rightarrow> char" where
  "upper_char c = (case map_of (zip ''abcdefghijklmnopqrstuvwxyz''
                                    ''ABCDEFGHIJKLMNOPQRSTUVWXYZ'') c
                   of Some d \<Rightarrow> d | None \<Rightarrow> c)"

definition upper :: "string \<Rightarrow> string" where
  "upper s = map upper_char s"

definition lower_char :: "char \<Rightarrow> char" where
  "lower_char c = (case map_of (zip ''ABCDEFGHIJKLMNOPQRSTUVWXYZ''
                                    ''abcdefghijklmnopqrstuvwxyz'') c
                   of Some d \<Rightarrow> d | None \<Rightarrow> c)"

definition is_digit :: "char \<Rightarrow> bool" where
  "is_digit c = (c \<in> set ''0123456789'')"

definition is_space :: "char \<Rightarrow> bool" where
  "is_space c = (c \<in> set [CHR '' '', CHR 0x09, CHR 0x0A, CHR 0x0B, CHR 0x0C, CHR 0x0D])"

definition digit_val :: "char \<Rightarrow> int" where
  "digit_val c = (case map_of (zip ''0123456789'' [0, 1, 2, 3, 4, 5, 6, 7, 8, 9]) c
                  of Some d \<Rightarrow> d | None \<Rightarrow> 0)"

definition digits_val :: "string \<Rightarrow> int" where
  "digits_val ds = foldl (\<lambda>a c. 10 * a + digit_val c) 0 ds"

definition startswith :: "string \<Rightarrow> string \<Rightarrow> bool" where
  "startswith s p = (take (length p) s = p)"

definition strip :: "string \<Rightarrow> string" where
  "strip s = rev (dropWhile is_space (rev (dropWhile is_space s)))"

subsection \<open>The builtin \<^verbatim>\<open>float\<close>\<close>

text \<open>
  \<^verbatim>\<open>float(s)\<close> of a string: surrounding whitespace is dropped, then an optional sign
  and either \<^verbatim>\<open>inf\<close>, \<^verbatim>\<open>infinity\<close> or \<^verbatim>\<open>nan\<close> in any case, or a decimal numeral
  (digits with an optional point, at least one digit, and an optional exponent). Anything
  else is a \<^verbatim>\<open>ValueError\<close>, here \<open>None\<close>.
\<close>

definition split_sign :: "string \<Rightarrow> bool \<times> string" where
  "split_sign s = (case s of [] \<Rightarrow> (False, [])
     | c # r \<Rightarrow> if c = CHR ''-'' then (True, r)
                else if c = CHR ''+'' then (False, r) else (False, s))"

definition parse_exponent :: "string \<Rightarrow> int option" where
  "parse_exponent r = (case r of [] \<Rightarrow> Some 0
     | c # r' \<Rightarrow>
        if c = CHR ''e'' \<or> c = CHR ''E'' then
          (let (neg, ds) = split_sign r'
           in if ds \<noteq> [] \<and> list_all is_digit ds
              then Some (if neg then - digits_val ds else digits_val ds)
              else None)
        else None)"

definition pow10 :: "int \<Rightarrow> rat" where
  "pow10 e = (if 0 \<le> e then 10 ^ nat e else 1 / 10 ^ nat (- e))"

definition float_of_string :: "string \<Rightarrow> pyfloat option" where
  "float_of_string s =
     (let (neg, t) = split_sign (strip s); l = map lower_char t
      in if l = ''inf'' \<or> l = ''infinity'' then Some (if neg then NInf else PInf)
         else if l = ''nan'' then Some NaN
         else
           let ip = takeWhile is_digit t; r1 = dropWhile is_digit t;
               (fp, r2) = (case r1 of [] \<Rightarrow> ([], [])
                  | c # r \<Rightarrow> if c = CHR ''.''
                      then (takeWhile is_digit r, dropWhile is_digit r) else ([], r1))
           in if ip = [] \<and> fp = [] then None
              else case parse_exponent r2 of None \<Rightarrow> None
                | Some ex \<Rightarrow>
                    let x = fl (of_int (digits_val (ip @ fp)) * pow10 (ex - int (length fp)))
                    in Some (if neg then fneg x else x))"

fun py_float :: "pyval \<Rightarrow> error + pyfloat" where
  "py_float (StrV s) = (case float_of_string s of None \<Rightarrow> Inl ValueError | Some x \<Rightarrow> Inr x)"
| "py_float (FltV x) = Inr x"
| "py_float (IntV n) = float_of_int n"
| "py_float NoneV = Inl TypeError"

subsection \<open>String formatting\<close>

text \<open>
  \<^verbatim>\<open>"%d" % n\<close> and \<^verbatim>\<open>"%.pf" % x\<close>: the latter rounds the exact value of the float to
  \<open>p\<close> decimals, ties to even, and keeps the sign of a negative value.
\<close>

definition digit_char :: "int \<Rightarrow> char" where
  "digit_char d = ''0123456789'' ! nat d"

function show_nat :: "int \<Rightarrow> string" where
  "show_nat n = (if n < 10 then [digit_char n] else show_nat (n div 10) @ [digit_char (n mod 10)])"
  by pat_completeness auto
termination
  by (relation "measure nat") auto

declare show_nat.simps [simp del]

definition fmt_d :: "int \<Rightarrow> string" where
  "fmt_d n = (if n < 0 then CHR ''-'' # show_nat (- n) else show_nat n)"

definition pad_zeros :: "nat \<Rightarrow> string \<Rightarrow> string" where
  "pad_zeros p ds = replicate (p - length ds) CHR ''0'' @ ds"

fun fmt_f :: "nat \<Rightarrow> pyfloat \<Rightarrow> string" where
  "fmt_f p (Fin x) =
     (let n = round_half_even (\<bar>x\<bar> * 10 ^ p)
      in (if x < 0 then [CHR ''-''] else [])
         @ show_nat (n div 10 ^ p)
         @ (if p = 0 then [] else CHR ''.'' # pad_zeros p (show_nat (n mod 10 ^ p))))"
| "fmt_f p PInf = ''inf''"
| "fmt_f p NInf = ''-inf''"
| "fmt_f p NaN = ''nan''"

definition fmt_f_val :: "nat \<Rightarrow> pyval \<Rightarrow> error + string" where
  "fmt_f_val p v = (case v of FltV x \<Rightarrow> Inr (fmt_f p x)
     | IntV n \<Rightarrow> ebind (float_of_int n) (\<lambda>x. Inr (fmt_f p x))
     | _ \<Rightarrow> Inl TypeError)"

text \<open>\<^verbatim>\<open>int(x)\<close> of a float truncates towards zero and fails on infinities and NaN.\<close>

fun int_of_float :: "pyfloat \<Rightarrow> error + int" where
  "int_of_float (Fin x) = Inr (if 0 \<le> x then \<lfloor>x\<rfloor> else - \<lfloor>- x\<rfloor>)"
| "int_of_float NaN = Inl ValueError"
| "int_of_float _ = Inl OverflowError"

text \<open>\<^verbatim>\<open>round(x)\<close> of Python 2: to the nearest integer, halves away from zero, as a float.\<close>

fun py_round :: "pyfloat \<Rightarrow> pyfloat" where
  "py_round (Fin x) = fl (of_int (if 0 \<le> x then \<lfloor>x + 1 / 2\<rfloor> else - \<lfloor>- x + 1 / 2\<rfloor>))"
| "py_round x = x"

definition gtlt_prefix :: "string option \<Rightarrow> string \<Rightarrow> string" where
  "gtlt_prefix g text =
     (if g = Some ''>'' then ''greater than '' @ text
      else if g = Some ''<'' then ''less than '' @ text
      else text)"

text \<open>Reading a local variable that no branch has assigned.\<close>

definition local_var :: "'a option \<Rightarrow> error + 'a" where
  "local_var v = (case v of None \<Rightarrow> Inl UnboundLocalError | Some x \<Rightarrow> Inr x)"

text \<open>Python's truth value of an optional string argument: \<^verbatim>\<open>None\<close> and \<^verbatim>\<open>""\<close> are false.\<close>

definition truthy :: "string option \<Rightarrow> bool" where
  "truthy a = (case a of None \<Rightarrow> False | Some s \<Rightarrow> s \<noteq> [])"

section \<open>class temperature\<close>

text \<open>
  An instance has the attribute \<^verbatim>\<open>_units\<close> and, once assigned, \<^verbatim>\<open>_value\<close>;
  \<open>t_value = None\<close> is an instance whose \<^verbatim>\<open>_value\<close> was never assigned, and reading it
  raises \<^verbatim>\<open>AttributeError\<close>.
\<close>

record temperature =
  t_units :: string
  t_value :: "pyfloat option"

definition temperature_legal_units :: "string list" where
  "temperature_legal_units = [''F'', ''C'', ''K'']"

definition temperature_init :: "pyval \<Rightarrow> string \<Rightarrow> error + temperature" where
  "temperature_init val units =
     (if upper units \<notin> set temperature_legal_units then Inl UnitsError
      else case py_float val of
          Inr x \<Rightarrow> Inr \<lparr>t_units = upper units, t_value = Some x\<rparr>
        | Inl e \<Rightarrow>
            if e = ValueError then
              (case val of
                 StrV s \<Rightarrow>
                   if startswith s ''M''
                   then ebind (py_float (StrV (drop 1 s)))
                          (\<lambda>x. Inr \<lparr>t_units = upper units, t_value = Some (fneg x)\<rparr>)
                   else Inr \<lparr>t_units = upper units, t_value = None\<rparr>
               | _ \<Rightarrow> Inl AttributeError)
            else Inl e)"

definition t_get_value :: "temperature \<Rightarrow> error + pyfloat" where
  "t_get_value self = (case t_value self of None \<Rightarrow> Inl AttributeError | Some v \<Rightarrow> Inr v)"

definition temperature_value :: "temperature \<Rightarrow> string option \<Rightarrow> error + pyval" where
  "temperature_value self units =
     (case units of
        None \<Rightarrow> ebind (t_get_value self) (\<lambda>v. Inr (FltV v))
      | Some u \<Rightarrow>
          if upper u \<notin> set temperature_legal_units then Inl UnitsError
          else
            ebind
              (if t_units self = ''C'' then ebind (t_get_value self) (\<lambda>v. Inr (Some v))
               else if t_units self = ''F'' then
                 ebind (t_get_value self) (\<lambda>v.
                   ebind (fdiv (fsub v (Fin 32)) (fl 1.8)) (\<lambda>c. Inr (Some c)))
               else if t_units self = ''K'' then
                 ebind (t_get_value self) (\<lambda>v. Inr (Some (fsub v (fl 273.15))))
               else Inr None)
              (\<lambda>celsius_value.
                 if upper u = ''C'' then
                   ebind (local_var celsius_value) (\<lambda>c. Inr (FltV c))
                 else if upper u = ''K'' then
                   ebind (local_var celsius_value) (\<lambda>c. Inr (FltV (fadd (fl 273.15) c)))
                 else if upper u = ''F'' then
                   ebind (local_var celsius_value) (\<lambda>c. Inr (FltV (fadd (Fin 32) (fmul c (fl 1.8)))))
                 else Inr NoneV))"


section \<open>class pressure\<close>

record pressure =
  p_units :: string
  p_value :: pyfloat

definition pressure_legal_units :: "string list" where
  "pressure_legal_units = [''MB'', ''HPA'', ''IN'']"

definition pressure_init :: "pyval \<Rightarrow> string \<Rightarrow> error + pressure" where
  "pressure_init val units =
     (if upper units \<notin> set pressure_legal_units then Inl UnitsError
      else ebind (py_float val) (\<lambda>v. Inr \<lparr>p_units = upper units, p_value = v\<rparr>))"

definition pressure_value :: "pressure \<Rightarrow> string option \<Rightarrow> error + pyval" where
  "pressure_value self units =
     (case units of
        None \<Rightarrow> Inr (FltV (p_value self))
      | Some u \<Rightarrow>
          if upper u \<notin> set pressure_legal_units then Inl UnitsError
          else if upper u = p_units self then Inr (FltV (p_value self))
          else
            let mb_value = (if p_units self = ''IN'' then fmul (p_value self) (fl 33.86398)
                            else p_value self)
            in if upper u = ''MB'' \<or> upper u = ''HPA'' then Inr (FltV mb_value)
               else if upper u = ''IN'' then
                 ebind (fdiv mb_value (fl 33.86398)) (\<lambda>r. Inr (FltV r))
               else Inl UnitsError)"


section \<open>class speed\<close>

record speed =
  s_units :: string
  s_gtlt :: "string option"
  s_value :: pyfloat

definition speed_legal_units :: "string list" where
  "speed_legal_units = [''KT'', ''MPS'', ''KMH'', ''MPH'']"

definition legal_gtlt :: "string list" where
  "legal_gtlt = [''>'', ''<'']"

definition speed_init :: "pyval \<Rightarrow> string option \<Rightarrow> string option \<Rightarrow> error + speed" where
  "speed_init val units gtlt =
     ebind (if \<not> truthy units then Inr ''MPS''
            else if upper (the units) \<notin> set speed_legal_units then Inl UnitsError
            else Inr (upper (the units)))
       (\<lambda>un.
          if truthy gtlt \<and> the gtlt \<notin> set legal_gtlt then Inl ValueError
          else ebind (py_float val)
                 (\<lambda>v. Inr \<lparr>s_units = un, s_gtlt = gtlt, s_value = v\<rparr>))"

text \<open>
  In \<^verbatim>\<open>value\<close>, the branch for \<^verbatim>\<open>KMH\<close> divides the string \<^verbatim>\<open>self._units\<close> by a float
  (a \<^verbatim>\<open>TypeError\<close>) and the branch for \<^verbatim>\<open>MPH\<close> assigns \<^verbatim>\<open>mbs_value\<close>, so that
  \<^verbatim>\<open>mps_value\<close> stays unassigned.
\<close>

definition speed_value :: "speed \<Rightarrow> string option \<Rightarrow> error + pyval" where
  "speed_value self units =
     (if \<not> truthy units then Inr (FltV (s_value self))
      else if upper (the units) \<notin> set speed_legal_units then Inl UnitsError
      else if upper (the units) = s_units self then Inr (FltV (s_value self))
      else
        ebind
          (if s_units self = ''KMH'' then Inl TypeError
           else if s_units self = ''KT'' then Inr (Some (fmul (s_value self) (fl 0.514444)))
           else if s_units self = ''MPH'' then Inr None
           else Inr (Some (s_value self)))
          (\<lambda>mps_value.
             if upper (the units) = ''KMH'' then
               ebind (local_var mps_value) (\<lambda>m. Inr (FltV (fmul m (fl 3.6))))
             else if upper (the units) = ''KT'' then
               ebind (local_var mps_value) (\<lambda>m. ebind (fdiv m (fl 0.514444)) (\<lambda>r. Inr (FltV r)))
             else if upper (the units) = ''MPH'' then
               ebind (local_var mps_value) (\<lambda>m. ebind (fdiv m (fl 0.447)) (\<lambda>r. Inr (FltV r)))
             else if upper (the units) = ''MPS'' then
               ebind (local_var mps_value) (\<lambda>m. Inr (FltV m))
             else Inr NoneV))"




section \<open>class distance\<close>

text \<open>
  \<^verbatim>\<open>FRACTION_RE = ^((?P<int>\d+)\s+)?(?P<num>\d+)/(?P<den>\d+)$\<close>. The match returns the
  groups \<open>int\<close> (if it took part), \<open>num\<close> and \<open>den\<close>. \<^verbatim>\<open>$\<close> matches at the end of the
  string and before a newline that ends it.
\<close>

definition match_end :: "string \<Rightarrow> bool" where
  "match_end r = (r = [] \<or> r = [CHR 0x0A])"

definition match_num_den :: "string \<Rightarrow> (string \<times> string) option" where
  "match_num_den s =
     (let n = takeWhile is_digit s; r = dropWhile is_digit s
      in if n = [] then None
         else case r of [] \<Rightarrow> None
           | c # r' \<Rightarrow>
               if c \<noteq> CHR ''/'' then None
               else let d = takeWhile is_digit r'; e = dropWhile is_digit r'
                    in if d = [] then None
                       else if match_end e then Some (n, d) else None)"

definition FRACTION_RE_match :: "string \<Rightarrow> (string option \<times> string \<times> string) option" where
  "FRACTION_RE_match s =
     (let i = takeWhile is_digit s; r = dropWhile is_digit s;
          w = takeWhile is_space r; r' = dropWhile is_space r
      in case (if i \<noteq> [] \<and> w \<noteq> [] then match_num_den r' else None) of
           Some (n, d) \<Rightarrow> Some (Some i, n, d)
         | None \<Rightarrow> (case match_num_den s of Some (n, d) \<Rightarrow> Some (None, n, d) | None \<Rightarrow> None))"

record distance =
  d_units :: string
  d_gtlt :: "string option"
  d_value :: pyfloat
  d_num :: "int option"
  d_den :: "int option"

definition distance_legal_units :: "string list" where
  "distance_legal_units = [''SM'', ''MI'', ''M'', ''KM'', ''FT'']"

text \<open>
  The token after the prefix step of \<^verbatim>\<open>__init__\<close>, with the qualifier: a token that is
  not a string has no \<^verbatim>\<open>startswith\<close>, and the bare \<^verbatim>\<open>except\<close> swallows that.
\<close>

definition strip_prefix :: "pyval \<Rightarrow> string option \<Rightarrow> pyval \<times> string option" where
  "strip_prefix val gtlt =
     (case val of
        StrV s \<Rightarrow> if startswith s ''M'' then (StrV (drop 1 s), Some ''<'')
                  else if startswith s ''P'' then (StrV (drop 1 s), Some ''>'')
                  else (val, gtlt)
      | _ \<Rightarrow> (val, gtlt))"

text \<open>The two parses of the token: \<^verbatim>\<open>float\<close>, then the fraction pattern.\<close>

definition parse_distance :: "pyval \<Rightarrow> error + pyfloat \<times> int option \<times> int option" where
  "parse_distance val =
     (case py_float val of
        Inr v \<Rightarrow> Inr (v, None, None)
      | Inl e \<Rightarrow>
          if e \<noteq> ValueError then Inl e
          else case val of
              StrV s \<Rightarrow>
                (case FRACTION_RE_match s of
                   None \<Rightarrow> Inl ValueError
                 | Some (i, n, d) \<Rightarrow>
                     let num = digits_val n; den = digits_val d
                     in ebind (float_of_int num) (\<lambda>fnum.
                        ebind (float_of_int den) (\<lambda>fden.
                        ebind (fdiv fnum fden) (\<lambda>q.
                          case i of
                            None \<Rightarrow> Inr (q, Some num, Some den)
                          | Some istr \<Rightarrow>
                              ebind (py_float (StrV istr))
                                (\<lambda>fi. Inr (fadd q fi, Some num, Some den))))))
            | _ \<Rightarrow> Inl TypeError)"

definition distance_init :: "pyval \<Rightarrow> string option \<Rightarrow> string option \<Rightarrow> error + distance" where
  "distance_init val units gtlt =
     ebind (if \<not> truthy units then Inr ''M''
            else if upper (the units) \<notin> set distance_legal_units then Inl UnitsError
            else Inr (upper (the units)))
       (\<lambda>un.
          let (val', gtlt') = strip_prefix val gtlt
          in if truthy gtlt' \<and> the gtlt' \<notin> set legal_gtlt then Inl ValueError
             else ebind (parse_distance val')
                    (\<lambda>(v, num, den).
                       Inr \<lparr>d_units = un, d_gtlt = gtlt', d_value = v, d_num = num, d_den = den\<rparr>))"

definition distance_value :: "distance \<Rightarrow> string option \<Rightarrow> error + pyval" where
  "distance_value self units =
     (if \<not> truthy units then Inr (FltV (d_value self))
      else if upper (the units) \<notin> set distance_legal_units then Inl UnitsError
      else if upper (the units) = d_units self then Inr (FltV (d_value self))
      else
        ebind
          (if d_units self = ''SM'' \<or> d_units self = ''MI'' then
             Inr (fmul (d_value self) (fl 1609.344))
           else if d_units self = ''FT'' then fdiv (d_value self) (fl 3.28084)
           else if d_units self = ''KM'' then Inr (fmul (d_value self) (Fin 1000))
           else Inr (d_value self))
          (\<lambda>m_value.
             if upper (the units) = ''SM'' \<or> upper (the units) = ''MI'' then
               ebind (fdiv m_value (fl 1609.344)) (\<lambda>r. Inr (FltV r))
             else if upper (the units) = ''FT'' then Inr (FltV (fmul m_value (fl 3.28084)))
             else if upper (the units) = ''KM'' then
               ebind (fdiv m_value (Fin 1000)) (\<lambda>r. Inr (FltV r))
             else if upper (the units) = ''M'' then Inr (FltV m_value)
             else Inr NoneV))"

text \<open>
  In \<^verbatim>\<open>string\<close>, the test \<^verbatim>\<open>self._num and self._den\<close> is Python's truth value: false
  for \<^verbatim>\<open>None\<close> and for \<open>0\<close>. The quotient \<^verbatim>\<open>self._num/self._den\<close> is the integer
  division of Python 2.
\<close>

definition int_truthy :: "int option \<Rightarrow> bool" where
  "int_truthy a = (case a of None \<Rightarrow> False | Some n \<Rightarrow> n \<noteq> 0)"

definition unit_word :: "string \<Rightarrow> string" where
  "unit_word un =
     (if un = ''SM'' \<or> un = ''MI'' then '' miles''
      else if un = ''M'' then '' meters''
      else if un = ''KM'' then '' km''
      else if un = ''FT'' then '' feet''
      else [])"

definition distance_string :: "distance \<Rightarrow> string option \<Rightarrow> error + pyval" where
  "distance_string self units =
     ebind (if \<not> truthy units then Inr (d_units self)
            else if upper (the units) \<notin> set distance_legal_units then Inl UnitsError
            else Inr (upper (the units)))
       (\<lambda>un.
          ebind
            (if int_truthy (d_num self) \<and> int_truthy (d_den self) \<and> un = d_units self then
               ebind (float_of_int (the (d_num self) div the (d_den self))) (\<lambda>fq.
               ebind (int_of_float (fsub (d_value self) fq)) (\<lambda>val.
                 if val \<noteq> 0 then
                   Inr (fmt_d val @ '' '' @ fmt_d (the (d_num self)) @ ''/''
                        @ fmt_d (the (d_den self)))
                 else Inr (fmt_d (the (d_num self)) @ ''/'' @ fmt_d (the (d_den self)))))
             else if un = ''KM'' then
               ebind (distance_value self (Some un)) (\<lambda>v. fmt_f_val 1 v)
             else ebind (distance_value self (Some un)) (\<lambda>v. fmt_f_val 0 v))
            (\<lambda>text. Inr (StrV (gtlt_prefix (d_gtlt self) (text @ unit_word un)))))"

section \<open>class direction\<close>

text \<open>
  The dictionary \<^verbatim>\<open>compass_dirs\<close> in the order of the source. Its values are pairwise
  different, so the loop of \<^verbatim>\<open>compass\<close>, which stops at the first entry with the sought
  value, finds the same entry in every iteration order.
\<close>

definition compass_dirs :: "(string \<times> pyfloat) list" where
  "compass_dirs =
     [(''N'', Fin 0), (''NNE'', Fin 22.5), (''NE'', Fin 45), (''ENE'', Fin 67.5),
      (''E'', Fin 90), (''ESE'', Fin 112.5), (''SE'', Fin 135), (''SSE'', Fin 157.5),
      (''S'', Fin 180), (''SSW'', Fin 202.5), (''SW'', Fin 225), (''WSW'', Fin 247.5),
      (''W'', Fin 270), (''WNW'', Fin 292.5), (''NW'', Fin 315), (''NNW'', Fin 337.5)]"

record direction =
  dir_compass :: "string option"
  dir_degrees :: pyfloat

definition has_key :: "pyval \<Rightarrow> pyfloat option" where
  "has_key d = (case d of StrV s \<Rightarrow> map_of compass_dirs s | _ \<Rightarrow> None)"

definition direction_init :: "pyval \<Rightarrow> error + direction" where
  "direction_init d =
     (case has_key d of
        Some deg \<Rightarrow>
          (case d of StrV s \<Rightarrow> Inr \<lparr>dir_compass = Some s, dir_degrees = deg\<rparr>
           | _ \<Rightarrow> Inl TypeError)
      | None \<Rightarrow>
          ebind (py_float d)
            (\<lambda>v. if flt v (Fin 0) \<or> flt (Fin 360) v then Inl ValueError
                  else Inr \<lparr>dir_compass = None, dir_degrees = v\<rparr>))"

definition direction_value :: "direction \<Rightarrow> pyfloat" where
  "direction_value self = dir_degrees self"

definition direction_string :: "direction \<Rightarrow> string" where
  "direction_string self = fmt_f 0 (dir_degrees self) @ '' degrees''"

text \<open>
  \<^verbatim>\<open>compass\<close> stores the name it finds in \<^verbatim>\<open>self._compass\<close>: it returns the name (or
  \<^verbatim>\<open>None\<close>, when no entry has the sought value) and the updated instance.
\<close>

definition direction_compass :: "direction \<Rightarrow> error + string option \<times> direction" where
  "direction_compass self =
     (if \<not> truthy (dir_compass self) then
        ebind (fdiv (dir_degrees self) (fl 22.5))
          (\<lambda>q. let degrees = fmul (fl 22.5) (py_round q);
                    c = (if feq degrees (Fin 360) then Some ''N''
                         else case find (\<lambda>(name, d). feq d degrees) compass_dirs of
                                Some (name, d) \<Rightarrow> Some name
                              | None \<Rightarrow> dir_compass self)
                in Inr (c, self\<lparr>dir_compass := c\<rparr>))
      else Inr (dir_compass self, self))"

section \<open>Auxiliary facts\<close>

lemma truthy_Some: "truthy (Some u) = (u \<noteq> [])"
  by (simp add: truthy_def)


lemma ebind_Inr: "ebind (Inr x) f = f x"
  by (simp add: ebind_def)

lemma pressure_init_units:
  "pressure_init val un = Inr p \<Longrightarrow> p_units p \<in> set pressure_legal_units"
  by (auto simp: pressure_init_def ebind_def split: if_splits sum.splits)

lemma speed_init_units:
  "speed_init val uo g = Inr s \<Longrightarrow> s_units s \<in> set speed_legal_units"
  by (auto simp: speed_init_def ebind_def speed_legal_units_def split: if_splits sum.splits)

lemma distance_init_units:
  "distance_init val uo g = Inr d \<Longrightarrow> d_units d \<in> set distance_legal_units"
  by (auto simp: distance_init_def ebind_def distance_legal_units_def
      split: if_splits sum.splits prod.splits)

subsection \<open>Rounding to binary64\<close>

lemma pow2_powi: "pow2 e = 2 powi e"
  by (simp add: pow2_def power_int_def inverse_eq_divide power_one_over)

lemma pow2_pos: "0 < pow2 e"
  by (simp add: pow2_powi)

lemma pow2_add: "pow2 (a + b) = pow2 a * pow2 b"
  by (simp add: pow2_powi power_int_add)

lemma pow2_mono: "a \<le> b \<Longrightarrow> pow2 a \<le> pow2 b"
  by (simp add: pow2_powi power_int_increasing)

lemma pow2_nat: "pow2 (int n) = 2 ^ n"
  by (simp add: pow2_powi)

lemma pow2_0: "pow2 0 = 1"
  by (simp add: pow2_def)

lemma pow2_Suc: "pow2 (e + 1) = 2 * pow2 e"
proof -
  have "pow2 1 = 2" by (simp add: pow2_def)
  then show ?thesis by (simp add: pow2_add)
qed

lemma pow2_int: "0 \<le> e \<Longrightarrow> pow2 e = of_int (2 ^ nat e)"
  by (simp add: pow2_def)

lemma bitlen_nonneg: "0 \<le> bitlen n"
  by (induction n rule: bitlen.induct) (simp add: bitlen.simps)

lemma bitlen_bounds:
  "0 < n \<Longrightarrow> pow2 (bitlen n - 1) \<le> of_int n \<and> of_int n < pow2 (bitlen n)"
proof (induction n rule: bitlen.induct)
  case (1 n)
  show ?case
  proof (cases "n = 1")
    case True
    have "bitlen 1 = 1"
      by (simp add: bitlen.simps[of 1] bitlen.simps[of 0])
    with True show ?thesis
      by (simp add: pow2_def)
  next
    case False
    with "1.prems" have h: "0 < n div 2" by auto
    then have ih: "pow2 (bitlen (n div 2) - 1) \<le> of_int (n div 2)"
       "of_int (n div 2) < pow2 (bitlen (n div 2))"
      using "1.IH" "1.prems" by auto
    have b: "bitlen n = 1 + bitlen (n div 2)"
      using "1.prems" by (simp add: bitlen.simps[of n])
    have bn: "0 \<le> bitlen (n div 2) - 1"
      using h bitlen_nonneg[of "n div 2 div 2"] by (simp add: bitlen.simps[of "n div 2"])
    have e1: "pow2 (bitlen (n div 2) - 1) = of_int (2 ^ nat (bitlen (n div 2) - 1))"
      using bn by (rule pow2_int)
    have e2: "pow2 (bitlen (n div 2)) = of_int (2 ^ nat (bitlen (n div 2)))"
      using bn by (intro pow2_int) simp
    from ih(1) have l: "(2::int) ^ nat (bitlen (n div 2) - 1) \<le> n div 2"
      unfolding e1 by (simp only: of_int_le_iff)
    from ih(2) have u: "n div 2 < (2::int) ^ nat (bitlen (n div 2))"
      unfolding e2 by (simp only: of_int_less_iff)
    have l': "2 * (2::int) ^ nat (bitlen (n div 2) - 1) \<le> n"
      using l by linarith
    have u': "n < 2 * (2::int) ^ nat (bitlen (n div 2))"
      using u by linarith
    have p1: "pow2 (bitlen n - 1) = 2 * pow2 (bitlen (n div 2) - 1)"
      using pow2_Suc[of "bitlen (n div 2) - 1"] by (simp add: b)
    have p2: "pow2 (bitlen n) = 2 * pow2 (bitlen (n div 2))"
      using pow2_Suc[of "bitlen (n div 2)"] by (simp add: b add.commute)
    have "pow2 (bitlen n - 1) = of_int (2 * 2 ^ nat (bitlen (n div 2) - 1))"
      by (simp add: p1 e1)
    moreover have "pow2 (bitlen n) = of_int (2 * 2 ^ nat (bitlen (n div 2)))"
      by (simp add: p2 e2)
    ultimately show ?thesis
      using l' u' by (simp only: of_int_le_iff of_int_less_iff)
  qed
qed

lemma ilog2_bounds:
  assumes "0 < x"
  shows "pow2 (ilog2 x) \<le> x \<and> x < pow2 (ilog2 x + 1)"
proof -
  obtain p q where pq: "quotient_of x = (p, q)" by (cases "quotient_of x")
  have q: "0 < q" using pq quotient_of_denom_pos by blast
  have x: "x = of_int p / of_int q" using pq quotient_of_div by blast
  have p: "0 < p" using assms q x by (simp add: zero_less_divide_iff)
  define k where "k = bitlen p - bitlen q"
  note bp = bitlen_bounds[OF p] and bq = bitlen_bounds[OF q]
  have qq: "(0::rat) < of_int q" using q by simp
  have up: "x < pow2 (k + 1)"
  proof -
    have "of_int p < pow2 (bitlen p)" using bp by simp
    also have "\<dots> = pow2 (k + 1) * pow2 (bitlen q - 1)"
      by (simp add: k_def pow2_add[symmetric])
    also have "\<dots> \<le> pow2 (k + 1) * of_int q"
      using bq pow2_pos[of "k + 1"] by (simp add: mult_left_mono)
    finally show ?thesis
      using qq by (simp add: x pos_divide_less_eq)
  qed
  have lo: "pow2 (k - 1) < x"
  proof -
    have "pow2 (k - 1) * of_int q < pow2 (k - 1) * pow2 (bitlen q)"
      using bq pow2_pos[of "k - 1"] by (simp add: mult_strict_left_mono)
    also have "\<dots> = pow2 (bitlen p - 1)"
      by (simp add: k_def pow2_add[symmetric])
    also have "\<dots> \<le> of_int p" using bp by simp
    finally show ?thesis
      using qq by (simp add: x pos_less_divide_eq)
  qed
  have il: "ilog2 x = (if pow2 k \<le> x then k else k - 1)"
    by (simp add: ilog2_def pq k_def Let_def)
  show ?thesis
  proof (cases "pow2 k \<le> x")
    case True
    then show ?thesis using up il by simp
  next
    case False
    then show ?thesis using lo il by simp
  qed
qed

lemma round_half_even_err: "\<bar>of_int (round_half_even x) - x\<bar> \<le> 1 / 2"
proof -
  have "of_int \<lfloor>x\<rfloor> \<le> x" "x < of_int \<lfloor>x\<rfloor> + 1" by linarith+
  then show ?thesis
    by (auto simp: round_half_even_def Let_def)
qed

lemma round_half_even_of_int: "round_half_even (of_int m) = m"
  by (simp add: round_half_even_def)

lemma round_half_even_nonneg: "0 \<le> x \<Longrightarrow> 0 \<le> round_half_even x"
  by (auto simp: round_half_even_def Let_def)


lemma pow2_less_cancel: "pow2 a < pow2 b \<Longrightarrow> a < b"
  using pow2_mono[of b a] by (cases "a < b") simp_all

lemma fl_neg: "fl (- x) = fneg (fl x)"
  by (simp add: fl_def Let_def)

lemma fl_pos_err:
  assumes x: "0 < x"
  defines "e \<equiv> max (ilog2 x - 52) (- 1074)"
  defines "y \<equiv> of_int (round_half_even (x / pow2 e)) * pow2 e"
  shows "\<bar>y - x\<bar> \<le> x / 2 ^ 53 + 1 / 2 ^ 1075" and "0 \<le> y"
    and "fl x = (if 2 ^ 1024 \<le> y then PInf else Fin y)"
proof -
  have P: "0 < pow2 e" by (rule pow2_pos)
  have "\<bar>of_int (round_half_even (x / pow2 e)) - x / pow2 e\<bar> \<le> 1 / 2"
    by (rule round_half_even_err)
  then have "\<bar>of_int (round_half_even (x / pow2 e)) - x / pow2 e\<bar> * pow2 e \<le> 1 / 2 * pow2 e"
    using P by (intro mult_right_mono) simp_all
  moreover have "\<bar>of_int (round_half_even (x / pow2 e)) - x / pow2 e\<bar> * pow2 e = \<bar>y - x\<bar>"
  proof -
    have "\<bar>of_int (round_half_even (x / pow2 e)) - x / pow2 e\<bar> * pow2 e
        = \<bar>(of_int (round_half_even (x / pow2 e)) - x / pow2 e) * pow2 e\<bar>"
      using P by (simp add: abs_mult)
    also have "(of_int (round_half_even (x / pow2 e)) - x / pow2 e) * pow2 e = y - x"
      using P by (simp add: y_def left_diff_distrib)
    finally show ?thesis .
  qed
  ultimately have err: "\<bar>y - x\<bar> \<le> pow2 e / 2" by simp
  have "pow2 e \<le> x / 2 ^ 52 + 1 / 2 ^ 1074"
  proof (cases "ilog2 x - 52 \<le> - 1074")
    case True
    then have "e = - 1074" by (simp add: e_def)
    then have "pow2 e = 1 / 2 ^ 1074" by (simp add: pow2_def)
    then show ?thesis using x by simp
  next
    case False
    then have "e = ilog2 x + (- 52)" by (simp add: e_def)
    then have "pow2 e = pow2 (ilog2 x) * pow2 (- 52)" by (simp only: pow2_add)
    also have "\<dots> = pow2 (ilog2 x) / 2 ^ 52" by (simp add: pow2_def)
    also have "\<dots> \<le> x / 2 ^ 52"
      using ilog2_bounds[OF x] by (simp add: divide_right_mono)
    finally show ?thesis by simp
  qed
  with err show "\<bar>y - x\<bar> \<le> x / 2 ^ 53 + 1 / 2 ^ 1075" by simp
  have "0 \<le> x / pow2 e" using x P by simp
  then have "0 \<le> round_half_even (x / pow2 e)" by (rule round_half_even_nonneg)
  then show "0 \<le> y" using P by (simp add: y_def)
  show "fl x = (if 2 ^ 1024 \<le> y then PInf else Fin y)"
    using x by (simp add: fl_def Let_def e_def y_def)
qed

lemma fl_nonneg_err:
  assumes "0 \<le> x" "x \<le> M" "M < 2 ^ 1023"
  shows "\<exists>y. fl x = Fin y \<and> 0 \<le> y \<and> \<bar>y - x\<bar> \<le> M / 2 ^ 53 + 1 / 2 ^ 1075"
proof (cases "x = 0")
  case True
  then show ?thesis using assms by (simp add: fl_def)
next
  case False
  with assms have x: "0 < x" by simp
  define y where "y = of_int (round_half_even (x / pow2 (max (ilog2 x - 52) (- 1074))))
     * pow2 (max (ilog2 x - 52) (- 1074))"
  note f = fl_pos_err[OF x, folded y_def]
  have "x / 2 ^ 53 \<le> M / 2 ^ 53" using assms by (simp add: divide_right_mono)
  with f(1) have e: "\<bar>y - x\<bar> \<le> M / 2 ^ 53 + 1 / 2 ^ 1075" by linarith
  have "M / 2 ^ 53 + 1 / 2 ^ 1075 \<le> M / 2 + 1"
  proof -
    have "0 \<le> M" using assms by simp
    then have "M / 2 ^ 53 \<le> M / 2" by (simp add: field_simps)
    moreover have "(1::rat) / 2 ^ 1075 \<le> 1" by simp
    ultimately show ?thesis by linarith
  qed
  with e assms have "y \<le> 3 / 2 * M + 1" by linarith
  also have "\<dots> < 2 ^ 1024" using assms by simp
  finally have "y < 2 ^ 1024" by simp
  then show ?thesis using f e by auto
qed

lemma fl_err:
  assumes "\<bar>x\<bar> \<le> M" "M < 2 ^ 1023"
  shows "\<exists>y. fl x = Fin y \<and> \<bar>y - x\<bar> \<le> M / 2 ^ 53 + 1 / 2 ^ 1075
           \<and> (0 \<le> x \<longrightarrow> 0 \<le> y) \<and> (x \<le> 0 \<longrightarrow> y \<le> 0)"
proof (cases "0 \<le> x")
  case True
  show ?thesis
  proof (cases "x = 0")
    case True
    then show ?thesis using assms by (simp add: fl_def)
  next
    case False
    with \<open>0 \<le> x\<close> assms fl_nonneg_err[of x M] show ?thesis by auto
  qed
next
  case False
  then have "0 \<le> - x" "- x \<le> M" using assms by simp_all
  from fl_nonneg_err[OF this assms(2)] obtain y where
    y: "fl (- x) = Fin y" "0 \<le> y" "\<bar>y - (- x)\<bar> \<le> M / 2 ^ 53 + 1 / 2 ^ 1075" by blast
  have "fl x = fneg (fl (- x))" using fl_neg[of "- x"] by simp
  then have "fl x = Fin (- y)" using y by simp
  moreover have "\<bar>- y - x\<bar> = \<bar>y - (- x)\<bar>" by simp
  ultimately show ?thesis using y False by auto
qed

lemma fl_exact_pos:
  assumes m: "0 < m" "m < 2 ^ 53" and e0: "- 1074 \<le> e0" "e0 \<le> 970"
  shows "fl (of_int m * pow2 e0) = Fin (of_int m * pow2 e0)"
proof -
  define x where "x = of_int m * pow2 e0"
  have x: "0 < x" using m pow2_pos by (simp add: x_def)
  define e where "e = max (ilog2 x - 52) (- 1074)"
  have "of_int m < (2::rat) ^ 53" using m(2) by (simp add: of_int_less_numeral_power_cancel_iff)
  then have "x < 2 ^ 53 * pow2 e0" unfolding x_def using pow2_pos[of e0]
    by (simp add: mult_strict_right_mono)
  also have "\<dots> = pow2 (53 + e0)"
  proof -
    have "pow2 53 = 2 ^ 53" by (simp add: pow2_def)
    then show ?thesis by (simp only: pow2_add)
  qed
  finally have xu: "x < pow2 (53 + e0)" .
  with ilog2_bounds[OF x] have "pow2 (ilog2 x) < pow2 (53 + e0)" by simp
  then have "ilog2 x < 53 + e0" by (rule pow2_less_cancel)
  then have ee: "e \<le> e0" using e0 by (simp add: e_def)
  have "x / pow2 e = of_int m * pow2 (e0 - e)"
    using pow2_add[of "e0 - e" e] pow2_pos[of e] by (simp add: x_def)
  also have "\<dots> = of_int (m * 2 ^ nat (e0 - e))"
    using ee by (simp add: pow2_int)
  finally have "round_half_even (x / pow2 e) = m * 2 ^ nat (e0 - e)"
    by (simp only: round_half_even_of_int)
  then have "of_int (round_half_even (x / pow2 e)) * pow2 e = of_int m * pow2 (e0 - e) * pow2 e"
    using ee by (simp add: pow2_int)
  also have "\<dots> = x"
    using pow2_add[of "e0 - e" e] by (simp add: x_def)
  finally have y: "of_int (round_half_even (x / pow2 e)) * pow2 e = x" .
  have "pow2 (53 + e0) \<le> pow2 1023" using e0 by (intro pow2_mono) simp
  also have "\<dots> < 2 ^ 1024" by (simp add: pow2_def)
  finally have "x < 2 ^ 1024" using xu by simp
  then show ?thesis
    using fl_pos_err(3)[OF x] y by (simp add: e_def x_def)
qed

lemma fl_exact:
  assumes "\<bar>m\<bar> < 2 ^ 53" "- 1074 \<le> e0" "e0 \<le> 970"
  shows "fl (of_int m * pow2 e0) = Fin (of_int m * pow2 e0)"
proof (cases "0 < m")
  case True
  then show ?thesis using assms fl_exact_pos by simp
next
  case False
  show ?thesis
  proof (cases "m = 0")
    case True
    then show ?thesis by (simp add: fl_def)
  next
    case F: False
    with False have "0 < - m" "- m < 2 ^ 53" using assms by simp_all
    from fl_exact_pos[OF this assms(2,3)]
    have "fl (- (of_int m * pow2 e0)) = Fin (- (of_int m * pow2 e0))" by simp
    then show ?thesis using fl_neg[of "of_int m * pow2 e0"]
      by (cases "fl (of_int m * pow2 e0)") simp_all
  qed
qed

lemma fl_of_int: "\<bar>n\<bar> < 2 ^ 53 \<Longrightarrow> fl (of_int n) = Fin (of_int n)"
  using fl_exact[of n 0] by (simp add: pow2_def)

lemma fl_1_8: "fl (9 / 5) = Fin (8106479329266893 / 4503599627370496)"
  by code_simp

lemma upper_C: "upper ''C'' = ''C''"
  by code_simp

lemma upper_F: "upper ''F'' = ''F''"
  by code_simp

lemma fl_err_le:
  assumes "\<bar>x\<bar> \<le> M" "M < 2 ^ 1023" "M / 2 ^ 53 + 1 / 2 ^ 1075 \<le> E"
  shows "\<exists>y. fl x = Fin y \<and> \<bar>y - x\<bar> \<le> E"
  using fl_err[OF assms(1,2)] assms(3) by fastforce

lemma round_trip_eq:
  "ebind (temperature_init (FltV (Fin c)) ''C'') (\<lambda>t1.
     ebind (temperature_value t1 (Some ''F'')) (\<lambda>f.
     ebind (temperature_init f ''F'') (\<lambda>t2.
       temperature_value t2 (Some ''C'')))) =
     ebind (fdiv (fsub (fadd (Fin 32) (fmul (Fin c) (fl 1.8))) (Fin 32)) (fl 1.8))
       (\<lambda>r. Inr (FltV r))"
  by (simp add: temperature_init_def temperature_value_def upper_C upper_F
      temperature_legal_units_def ebind_def t_get_value_def local_var_def
      split: sum.splits)

subsection \<open>Tokens\<close>




text \<open>
  The scenario of the specification: \<^verbatim>\<open>distance("1 3/4", "SM")\<close> has the value \<open>1.75\<close>,
  prints as \<^verbatim>\<open>1 3/4 miles\<close> in its own unit and numerically in another one.
\<close>

lemma distance_one_three_quarters:
  "distance_init (StrV ''1 3/4'') (Some ''SM'') None
       = Inr \<lparr>d_units = ''SM'', d_gtlt = None, d_value = Fin 1.75, d_num = Some 3, d_den = Some 4\<rparr>
   \<and> distance_string \<lparr>d_units = ''SM'', d_gtlt = None, d_value = Fin 1.75, d_num = Some 3,
         d_den = Some 4\<rparr> None = Inr (StrV ''1 3/4 miles'')
   \<and> distance_value \<lparr>d_units = ''SM'', d_gtlt = None, d_value = Fin 1.75, d_num = Some 3,
         d_den = Some 4\<rparr> None = Inr (FltV (Fin 1.75))
   \<and> distance_string \<lparr>d_units = ''SM'', d_gtlt = None, d_value = Fin 1.75, d_num = Some 3,
         d_den = Some 4\<rparr> (Some ''KM'') = Inr (StrV ''2.8 km'')"
  by code_simp

section \<open>Results\<close>

text \<open>
  Claim C1. The claim: a WindSpeed constructed in KMH (resp. MPH) converts to any legal
  target unit through the meters-per-second base, \<open>v / 3.6\<close> (resp. \<open>v * 0.447\<close>), and the
  call never fails for legal units. The code does not: for an instance in KMH, with any
  stored value and qualifier, \<^verbatim>\<open>value("MPS")\<close> raises \<^verbatim>\<open>TypeError\<close> (the unit string is
  divided by 3.6), and for an instance in MPH it raises \<^verbatim>\<open>UnboundLocalError\<close> (the base
  value is assigned to \<^verbatim>\<open>mbs_value\<close> and \<^verbatim>\<open>mps_value\<close> is read); so do the constructor
  calls \<^verbatim>\<open>speed(10, "KMH")\<close> and \<^verbatim>\<open>speed(10, "MPH")\<close>.
\<close>

theorem speed_value_kmh_mph_raise:
  "speed_value \<lparr>s_units = ''KMH'', s_gtlt = g, s_value = v\<rparr> (Some ''MPS'') = Inl TypeError
   \<and> speed_value \<lparr>s_units = ''MPH'', s_gtlt = g, s_value = v\<rparr> (Some ''MPS'') = Inl UnboundLocalError
   \<and> ebind (speed_init (IntV 10) (Some ''KMH'') None) (\<lambda>s. speed_value s (Some ''MPS''))
       = Inl TypeError
   \<and> ebind (speed_init (IntV 10) (Some ''MPH'') None) (\<lambda>s. speed_value s (Some ''MPS''))
       = Inl UnboundLocalError"
proof -
  have up: "upper ''MPS'' = ''MPS''"
    by code_simp
  have leg: "''MPS'' \<in> set speed_legal_units"
    by (simp add: speed_legal_units_def)
  have kmh: "speed_value \<lparr>s_units = ''KMH'', s_gtlt = g', s_value = v'\<rparr> (Some ''MPS'') = Inl TypeError"
    for g' v'
    by (simp add: speed_value_def truthy_def up leg ebind_def)
  have mph: "speed_value \<lparr>s_units = ''MPH'', s_gtlt = g', s_value = v'\<rparr> (Some ''MPS'')
      = Inl UnboundLocalError" for g' v'
    by (simp add: speed_value_def truthy_def up leg ebind_def local_var_def)
  have i1: "speed_init (IntV 10) (Some ''KMH'') None
      = Inr \<lparr>s_units = ''KMH'', s_gtlt = None, s_value = Fin 10\<rparr>"
    by code_simp
  have i2: "speed_init (IntV 10) (Some ''MPH'') None
      = Inr \<lparr>s_units = ''MPH'', s_gtlt = None, s_value = Fin 10\<rparr>"
    by code_simp
  show ?thesis
    by (simp add: kmh mph i1 i2 ebind_def)
qed

text \<open>
  Claim C2. The claim: a Temperature token that is neither a decimal nor \<open>M\<close> followed by
  a decimal makes the constructor fail, and no instance without a numeric value is ever
  observable. The code does not: \<^verbatim>\<open>temperature("abc", "C")\<close> returns an instance that has
  its unit and no \<^verbatim>\<open>_value\<close> (the handler of the \<^verbatim>\<open>ValueError\<close> assigns only when the
  token starts with \<open>M\<close> and does not re-raise), and the failure appears later, as an
  \<^verbatim>\<open>AttributeError\<close> of \<^verbatim>\<open>value()\<close>.
\<close>

theorem temperature_init_partial_instance:
  "float_of_string ''abc'' = None
   \<and> \<not> startswith ''abc'' ''M''
   \<and> temperature_init (StrV ''abc'') ''C'' = Inr \<lparr>t_units = ''C'', t_value = None\<rparr>
   \<and> temperature_value \<lparr>t_units = ''C'', t_value = None\<rparr> None = Inl AttributeError
   \<and> temperature_value \<lparr>t_units = ''C'', t_value = None\<rparr> (Some ''F'') = Inl AttributeError"
proof -
  have a: "float_of_string ''abc'' = None"
    by code_simp
  have b: "\<not> startswith ''abc'' ''M''"
    by (simp add: startswith_def)
  have c: "temperature_init (StrV ''abc'') ''C'' = Inr \<lparr>t_units = ''C'', t_value = None\<rparr>"
    by code_simp
  have d: "temperature_value \<lparr>t_units = ''C'', t_value = None\<rparr> None = Inl AttributeError"
    by (simp add: temperature_value_def t_get_value_def ebind_def)
  have e: "temperature_value \<lparr>t_units = ''C'', t_value = None\<rparr> (Some ''F'') = Inl AttributeError"
    by code_simp
  from a b c d e show ?thesis
    by simp
qed





text \<open>
  Claim C10. For a Pressure, WindSpeed or Distance that its constructor returned,
  \<^verbatim>\<open>value(u)\<close> with a unit \<open>u\<close> whose upper-case form is the construction unit returns the
  stored value itself, the very float that \<^verbatim>\<open>value()\<close> returns: no operation of the
  float arithmetic (each of which rounds) is applied to it.
\<close>

theorem value_in_construction_unit:
  "(pressure_init val un = Inr p \<and> upper u1 = p_units p \<longrightarrow>
      pressure_value p (Some u1) = Inr (FltV (p_value p))
      \<and> pressure_value p None = Inr (FltV (p_value p)))
   \<and> (speed_init val uo g = Inr s \<and> upper u2 = s_units s \<longrightarrow>
      speed_value s (Some u2) = Inr (FltV (s_value s))
      \<and> speed_value s None = Inr (FltV (s_value s)))
   \<and> (distance_init val uo' g' = Inr d \<and> upper u3 = d_units d \<longrightarrow>
      distance_value d (Some u3) = Inr (FltV (d_value d))
      \<and> distance_value d None = Inr (FltV (d_value d)))"
proof (intro conjI impI)
  assume a: "pressure_init val un = Inr p \<and> upper u1 = p_units p"
  then have "upper u1 \<in> set pressure_legal_units"
    using pressure_init_units by metis
  with a show "pressure_value p (Some u1) = Inr (FltV (p_value p))"
    by (simp add: pressure_value_def)
next
  show "pressure_value p None = Inr (FltV (p_value p))"
    by (simp add: pressure_value_def)
next
  assume a: "speed_init val uo g = Inr s \<and> upper u2 = s_units s"
  then have l: "upper u2 \<in> set speed_legal_units"
    using speed_init_units by metis
  then have "u2 \<noteq> []"
    by (auto simp: speed_legal_units_def upper_def)
  with a l show "speed_value s (Some u2) = Inr (FltV (s_value s))"
    by (simp add: speed_value_def truthy_Some)
next
  show "speed_value s None = Inr (FltV (s_value s))"
    by (simp add: speed_value_def truthy_def)
next
  assume a: "distance_init val uo' g' = Inr d \<and> upper u3 = d_units d"
  then have l: "upper u3 \<in> set distance_legal_units"
    using distance_init_units by metis
  then have "u3 \<noteq> []"
    by (auto simp: distance_legal_units_def upper_def)
  with a l show "distance_value d (Some u3) = Inr (FltV (d_value d))"
    by (simp add: distance_value_def truthy_Some)
next
  show "distance_value d None = Inr (FltV (d_value d))"
    by (simp add: distance_value_def truthy_def)
qed

theorem value_in_construction_unit_witness:
  "pressure_init (StrV ''1013.25'') ''mb'' = Inr \<lparr>p_units = ''MB'', p_value = Fin 1013.25\<rparr>
   \<and> upper ''Mb'' = ''MB''
   \<and> pressure_value \<lparr>p_units = ''MB'', p_value = Fin 1013.25\<rparr> (Some ''Mb'')
       = Inr (FltV (Fin 1013.25))
   \<and> speed_init (StrV ''1013.25'') (Some ''kt'') (Some ''>'')
       = Inr \<lparr>s_units = ''KT'', s_gtlt = Some ''>'', s_value = Fin 1013.25\<rparr>
   \<and> upper ''Kt'' = ''KT''
   \<and> speed_value \<lparr>s_units = ''KT'', s_gtlt = Some ''>'', s_value = Fin 1013.25\<rparr> (Some ''Kt'')
       = Inr (FltV (Fin 1013.25))
   \<and> distance_init (StrV ''1013.25'') (Some ''sm'') None
       = Inr \<lparr>d_units = ''SM'', d_gtlt = None, d_value = Fin 1013.25, d_num = None,
              d_den = None\<rparr>
   \<and> upper ''sM'' = ''SM''
   \<and> distance_value \<lparr>d_units = ''SM'', d_gtlt = None, d_value = Fin 1013.25, d_num = None,
         d_den = None\<rparr> (Some ''sM'') = Inr (FltV (Fin 1013.25))"
proof -
  have p: "pressure_init (StrV ''1013.25'') ''mb''
      = Inr \<lparr>p_units = ''MB'', p_value = Fin 1013.25\<rparr>"
    by code_simp
  have s: "speed_init (StrV ''1013.25'') (Some ''kt'') (Some ''>'')
      = Inr \<lparr>s_units = ''KT'', s_gtlt = Some ''>'', s_value = Fin 1013.25\<rparr>"
    by code_simp
  have d: "distance_init (StrV ''1013.25'') (Some ''sm'') None
      = Inr \<lparr>d_units = ''SM'', d_gtlt = None, d_value = Fin 1013.25, d_num = None,
             d_den = None\<rparr>"
    by code_simp
  have u: "upper ''Mb'' = ''MB''" "upper ''Kt'' = ''KT''" "upper ''sM'' = ''SM''"
    by code_simp+
  show ?thesis
    using p s d u
      value_in_construction_unit [of "StrV ''1013.25''" "''mb''"
        "\<lparr>p_units = ''MB'', p_value = Fin 1013.25\<rparr>" "''Mb''"
        "Some ''kt''" "Some ''>''"
        "\<lparr>s_units = ''KT'', s_gtlt = Some ''>'', s_value = Fin 1013.25\<rparr>" "''Kt''"
        "Some ''sm''" None
        "\<lparr>d_units = ''SM'', d_gtlt = None, d_value = Fin 1013.25, d_num = None, d_den = None\<rparr>"
        "''sM''"]
    by simp
qed

text \<open>
  Claim C8, as amended. The claim: for every finite Celsius value \<open>c\<close>, a Temperature
  built from \<open>c\<close> in C, converted with \<^verbatim>\<open>value("F")\<close>, built again from that result in F
  and converted with \<^verbatim>\<open>value("C")\<close> is within \<open>1e-9\<close> of \<open>c\<close>. Each of the four float
  operations rounds with a relative error of up to \<open>2^-53\<close>, so the bound cannot hold for
  large values. Amended: it holds for every \<open>c\<close> with \<open>|c| \<le> 10^6\<close>, and the four calls
  succeed there.
\<close>

theorem round_trip_bound:
  assumes c: "\<bar>c\<bar> \<le> 10 ^ 6"
  shows "\<exists>r. 
     ebind (temperature_init (FltV (Fin c)) ''C'') (\<lambda>t1.
     ebind (temperature_value t1 (Some ''F'')) (\<lambda>f.
     ebind (temperature_init f ''F'') (\<lambda>t2.
       temperature_value t2 (Some ''C''))))
     = Inr (FltV (Fin r)) \<and> \<bar>r - c\<bar> \<le> 1 / 10 ^ 9"
proof -
  define k :: rat where "k = 8106479329266893 / 4503599627370496"
  have k: "fl (9 / 5) = Fin k" by (simp add: fl_1_8 k_def)
  have kb: "9 / 5 \<le> k" "k \<le> 1800001 / 1000000" by (simp_all add: k_def)
  have k0: "0 < k" by (simp add: k_def)
  from c have c': "\<bar>c\<bar> \<le> 1000000" by simp
  have "\<bar>c * k\<bar> = \<bar>c\<bar> * k" using k0 by (simp add: abs_mult)
  also have "\<dots> \<le> 1000000 * (1800001 / 1000000)"
    using c' kb k0 by (intro mult_mono) simp_all
  finally have m1: "\<bar>c * k\<bar> \<le> 1800001" by simp
  have "\<exists>y. fl (c * k) = Fin y \<and> \<bar>y - c * k\<bar> \<le> 2 / 10000000000"
    by (rule fl_err_le[OF m1]) simp_all
  then obtain t1 where t1: "fl (c * k) = Fin t1" "\<bar>t1 - c * k\<bar> \<le> 2 / 10000000000"
    by blast
  have m2: "\<bar>32 + t1\<bar> \<le> 1800034" using m1 t1(2) by linarith
  have "\<exists>y. fl (32 + t1) = Fin y \<and> \<bar>y - (32 + t1)\<bar> \<le> 2 / 10000000000"
    by (rule fl_err_le[OF m2]) simp_all
  then obtain f where f: "fl (32 + t1) = Fin f" "\<bar>f - (32 + t1)\<bar> \<le> 2 / 10000000000"
    by blast
  have m3: "\<bar>f - 32\<bar> \<le> 1800002" using m1 t1(2) f(2) by linarith
  have "\<exists>y. fl (f - 32) = Fin y \<and> \<bar>y - (f - 32)\<bar> \<le> 2 / 10000000000"
    by (rule fl_err_le[OF m3]) simp_all
  then obtain t2 where t2: "fl (f - 32) = Fin t2" "\<bar>t2 - (f - 32)\<bar> \<le> 2 / 10000000000"
    by blast
  have d: "\<bar>t2 - c * k\<bar> \<le> 6 / 10000000000" using t1(2) f(2) t2(2) by linarith
  have q: "t2 / k - c = (t2 - c * k) / k" using k0 by (simp add: field_simps)
  have "\<bar>t2 / k - c\<bar> = \<bar>t2 - c * k\<bar> / k" using k0 by (simp add: q)
  also have "\<dots> \<le> (6 / 10000000000) / k" by (rule divide_right_mono[OF d]) (use k0 in simp)
  also have "\<dots> \<le> 4 / 10000000000" by (simp add: k_def)
  finally have d': "\<bar>t2 / k - c\<bar> \<le> 4 / 10000000000" .
  have m4: "\<bar>t2 / k\<bar> \<le> 1000001" using d' c' by linarith
  have "\<exists>y. fl (t2 / k) = Fin y \<and> \<bar>y - t2 / k\<bar> \<le> 2 / 10000000000"
    by (rule fl_err_le[OF m4]) simp_all
  then obtain r where r: "fl (t2 / k) = Fin r" "\<bar>r - t2 / k\<bar> \<le> 2 / 10000000000"
    by blast
  have "\<bar>r - c\<bar> \<le> 1 / 1000000000" using r(2) d' by linarith
  then have "\<bar>r - c\<bar> \<le> 1 / 10 ^ 9" by simp
  moreover have "
     ebind (temperature_init (FltV (Fin c)) ''C'') (\<lambda>t1.
     ebind (temperature_value t1 (Some ''F'')) (\<lambda>f.
     ebind (temperature_init f ''F'') (\<lambda>t2.
       temperature_value t2 (Some ''C''))))
     = Inr (FltV (Fin r))"
    unfolding round_trip_eq using k0 by (simp add: k fsub_def t1 f t2 r ebind_def)
  ultimately show ?thesis by blast
qed

theorem round_trip_bound_witness:
  "\<bar>25 :: rat\<bar> \<le> 10 ^ 6
   \<and> (\<exists>r. 
     ebind (temperature_init (FltV (Fin 25)) ''C'') (\<lambda>t1.
     ebind (temperature_value t1 (Some ''F'')) (\<lambda>f.
     ebind (temperature_init f ''F'') (\<lambda>t2.
       temperature_value t2 (Some ''C''))))
     = Inr (FltV (Fin r)) \<and> \<bar>r - 25\<bar> \<le> 1 / 10 ^ 9)"
  using round_trip_bound [of 25] by simp

text \<open>
  The claim C8 as stated fails at \<open>c = 10000003.0\<close>: the Fahrenheit value is
  \<open>18000037.400000002\<close> and the round trip returns \<open>c + 2^-29\<close>, which is
  \<open>1.86e-9\<close> away from \<open>c\<close>.
\<close>

theorem round_trip_counterexample:
  "
     ebind (temperature_init (FltV (Fin 10000003)) ''C'') (\<lambda>t1.
     ebind (temperature_value t1 (Some ''F'')) (\<lambda>f.
     ebind (temperature_init f ''F'') (\<lambda>t2.
       temperature_value t2 (Some ''C''))))
     = Inr (FltV (Fin (10000003 + 1 / 2 ^ 29)))
   \<and> \<not> \<bar>(10000003 + 1 / 2 ^ 29) - 10000003 :: rat\<bar> \<le> 1 / 10 ^ 9"
proof -
  have "
     ebind (temperature_init (FltV (Fin 10000003)) ''C'') (\<lambda>t1.
     ebind (temperature_value t1 (Some ''F'')) (\<lambda>f.
     ebind (temperature_init f ''F'') (\<lambda>t2.
       temperature_value t2 (Some ''C''))))
     = Inr (FltV (Fin (10000003 + 1 / 2 ^ 29)))"
    by code_simp
  then show ?thesis by simp
qed



text \<open>
  Claim C5. The claim: for every Distance built from a fraction token, \<^verbatim>\<open>string()\<close> in
  the construction unit reproduces the fraction. The code does not when the numerator is
  zero: \<^verbatim>\<open>distance("0/4", "SM")\<close> stores the fraction \<open>0/4\<close>, and \<^verbatim>\<open>string()\<close> tests
  \<^verbatim>\<open>self._num and self._den\<close>, which is false for the numerator \<open>0\<close> as it is for
  \<^verbatim>\<open>None\<close>, and prints the numeric form \<^verbatim>\<open>0 miles\<close> instead of \<^verbatim>\<open>0/4 miles\<close>.
\<close>

theorem distance_zero_numerator_string:
  "FRACTION_RE_match ''0/4'' = Some (None, ''0'', ''4'')
   \<and> distance_init (StrV ''0/4'') (Some ''SM'') None
       = Inr \<lparr>d_units = ''SM'', d_gtlt = None, d_value = Fin 0, d_num = Some 0, d_den = Some 4\<rparr>
   \<and> distance_string \<lparr>d_units = ''SM'', d_gtlt = None, d_value = Fin 0, d_num = Some 0,
         d_den = Some 4\<rparr> None = Inr (StrV ''0 miles'')
   \<and> distance_string \<lparr>d_units = ''SM'', d_gtlt = None, d_value = Fin 0, d_num = Some 0,
         d_den = Some 4\<rparr> (Some ''SM'') = Inr (StrV ''0 miles'')"
  by code_simp

end
